theory Spec2Isabelle
  imports Complex_Main
begin

section \<open>Device stats monitor: the embedding\<close>

text \<open>
  The embedded file is \<^verbatim>\<open>src/pytorch_lightning/callbacks/device_stats_monitor.py\<close>:
  the callback \<^verbatim>\<open>DeviceStatsMonitor\<close> with its methods \<^verbatim>\<open>setup\<close>,
  \<^verbatim>\<open>_get_and_log_device_stats\<close>, \<^verbatim>\<open>on_train_batch_start\<close> and
  \<^verbatim>\<open>on_train_batch_end\<close>, and the module functions \<^verbatim>\<open>_prefix_metric_keys\<close> and
  \<^verbatim>\<open>prefix_metric_keys\<close>. A leading underscore is not an Isabelle identifier, so the
  two private names carry the prefix \<open>priv_\<close>; \<^verbatim>\<open>setup\<close> is a keyword of the theory
  language and is called \<open>setup_callback\<close>.
\<close>

subsection \<open>Python dictionaries\<close>

text \<open>
  A Python \<^verbatim>\<open>Dict[str, float]\<close> keeps its keys unique and in insertion order. It is an
  association list here; \<open>wf_dict\<close> is the invariant of the Python type (no key twice).
  The metric values are only passed on, never computed with, so their type is a
  parameter \<open>'v\<close>.
\<close>

type_synonym 'v dict = "(string \<times> 'v) list"

definition wf_dict :: "'v dict \<Rightarrow> bool" where
  "wf_dict d = distinct (map fst d)"

definition dict_keys :: "'v dict \<Rightarrow> string set" where
  "dict_keys d = fst ` set d"

definition dict_get :: "'v dict \<Rightarrow> string \<Rightarrow> 'v option" where
  "dict_get d k = map_of d k"

text \<open>
  \<^verbatim>\<open>d[k] = v\<close>: an existing key keeps its place and takes the new value, a new key
  goes to the end.
\<close>

fun dict_setitem :: "'v dict \<Rightarrow> string \<Rightarrow> 'v \<Rightarrow> 'v dict" where
  "dict_setitem [] k v = [(k, v)]"
| "dict_setitem ((k', v') # d) k v =
     (if k' = k then (k, v) # d else (k', v') # dict_setitem d k v)"

text \<open>\<^verbatim>\<open>d.update(other)\<close>: every item of \<open>other\<close>, in its order, is stored in \<open>d\<close>.\<close>

fun dict_update :: "'v dict \<Rightarrow> 'v dict \<Rightarrow> 'v dict" where
  "dict_update d [] = d"
| "dict_update d ((k, v) # other) = dict_update (dict_setitem d k v) other"

subsection \<open>The collaborators\<close>

text \<open>
  \<^verbatim>\<open>device.type\<close> is the only attribute read of the root device.
  Of a logger the code reads \<^verbatim>\<open>group_separator\<close> and calls \<^verbatim>\<open>log_metrics\<close>;
  \<open>logger_name\<close> stands for the identity of the logger object.
\<close>

record device =
  device_type :: string

record logger =
  logger_name :: string
  group_separator :: string

text \<open>
  What the code reads of the trainer: \<^verbatim>\<open>trainer.loggers\<close>,
  \<^verbatim>\<open>trainer._logger_connector.should_update_logs\<close>, \<^verbatim>\<open>trainer.strategy.root_device\<close>,
  \<^verbatim>\<open>trainer.accelerator.get_device_stats\<close> and \<^verbatim>\<open>trainer.global_step\<close>.
\<close>

record 'v trainer =
  loggers :: "logger list"
  should_update_logs :: bool
  root_device :: device
  get_device_stats :: "device \<Rightarrow> 'v dict"
  global_step :: int

text \<open>\<^verbatim>\<open>self.cpu_stats: Optional[bool]\<close>, set by \<^verbatim>\<open>__init__\<close> (default \<^verbatim>\<open>None\<close>).\<close>

record device_stats_monitor =
  cpu_stats :: "bool option"

definition init :: "bool option \<Rightarrow> device_stats_monitor" where
  "init cpu_stats_arg = \<lparr>cpu_stats = cpu_stats_arg\<rparr>"

subsection \<open>Effects and errors\<close>

text \<open>
  The calls the code makes to its collaborators are its only effects. Each function
  returns, beside its result, the list of its effects, in order: the calls
  \<^verbatim>\<open>trainer.accelerator.get_device_stats(device)\<close>, \<^verbatim>\<open>get_cpu_process_metrics()\<close> and
  \<^verbatim>\<open>logger.log_metrics(metrics, step=...)\<close>, and the deprecation notices that a call of
  \<^verbatim>\<open>rank_zero_deprecation(message)\<close> emits.
  The collaborators themselves are not in this file. The two queries are parameters
  that return a dictionary, and \<^verbatim>\<open>log_metrics\<close> returns nothing. The
  code catches no exception, so what a collaborator raises leaves the function at
  once; the model follows the calls in which the collaborators return.
\<close>

datatype 'v event =
    GetDeviceStats device
  | GetCpuProcessMetrics
  | LogMetrics logger "'v dict" int
  | DeprecationNotice string

datatype error = MisconfigurationException string

type_synonym 'v outcome = "(error + unit) \<times> 'v event list"

fun is_device_query :: "'v event \<Rightarrow> bool" where
  "is_device_query (GetDeviceStats d) = True"
| "is_device_query e = False"

fun is_process_query :: "'v event \<Rightarrow> bool" where
  "is_process_query GetCpuProcessMetrics = True"
| "is_process_query e = False"

fun is_log_metrics :: "'v event \<Rightarrow> bool" where
  "is_log_metrics (LogMetrics l m s) = True"
| "is_log_metrics e = False"

fun is_deprecation :: "'v event \<Rightarrow> bool" where
  "is_deprecation (DeprecationNotice m) = True"
| "is_deprecation e = False"

subsection \<open>Key prefixing\<close>

text \<open>
  \<^verbatim>\<open>{prefix + separator + k: v for k, v in metrics_dict.items()}\<close>: the comprehension
  starts from the empty dictionary and stores one item after the other.
\<close>

fun prefix_comprehension :: "'v dict \<Rightarrow> string \<Rightarrow> string \<Rightarrow> 'v dict \<Rightarrow> 'v dict" where
  "prefix_comprehension acc prefix separator [] = acc"
| "prefix_comprehension acc prefix separator ((k, v) # items) =
     prefix_comprehension (dict_setitem acc (prefix @ separator @ k) v) prefix separator items"

definition priv_prefix_metric_keys :: "'v dict \<Rightarrow> string \<Rightarrow> string \<Rightarrow> 'v dict" where
  "priv_prefix_metric_keys metrics_dict prefix separator =
     prefix_comprehension [] prefix separator metrics_dict"

definition deprecation_message :: string where
  "deprecation_message =
     ''`pytorch_lightning.callbacks.device_stats_monitor.prefix_metrics`'' @
     '' is deprecated in v1.6 and will be removed in v1.8.''"

text \<open>
  Modelled from the spec: \<^verbatim>\<open>rank_zero_deprecation\<close>, imported from
  \<^verbatim>\<open>pytorch_lightning.utilities.warnings\<close>, whose body is not among the source files.
  The spec gives it as the diagnostic-emission capability of the deprecated utility,
  through which the utility "emits a deprecation warning on every call" and "exactly
  one deprecation notice per call", with "no other side effects" and no I/O: one call
  emits one deprecation notice, which carries the message it is given, and does
  nothing else. Process rank and warning filters are not in the spec and not in the
  model.
\<close>

definition rank_zero_deprecation :: "string \<Rightarrow> 'v event list" where
  "rank_zero_deprecation message = [DeprecationNotice message]"

text \<open>
  \<^verbatim>\<open>prefix_metric_keys\<close>: one call of \<^verbatim>\<open>rank_zero_deprecation\<close> with the message, then
  the rewrite with the empty separator. Its effects are those of that one call.
\<close>

definition prefix_metric_keys :: "'v dict \<Rightarrow> string \<Rightarrow> 'v dict \<times> 'v event list" where
  "prefix_metric_keys metrics_dict prefix =
     (let notices = rank_zero_deprecation deprecation_message;
          sep = ''''
      in (priv_prefix_metric_keys metrics_dict prefix sep, notices))"

subsection \<open>The callback\<close>

definition setup_message :: string where
  "setup_message =
     ''Cannot use `DeviceStatsMonitor` callback with `Trainer` that has no logger.''"

definition sampling_message :: string where
  "sampling_message =
     ''Cannot use `DeviceStatsMonitor` callback with `Trainer(logger=False)`.''"

definition setup_callback :: "device_stats_monitor \<Rightarrow> 'v trainer \<Rightarrow> 'v outcome" where
  "setup_callback self trainer =
     (if loggers trainer = [] then (Inl (MisconfigurationException setup_message), [])
      else (Inr (), []))"

text \<open>
  Lines 78 to 86 of \<^verbatim>\<open>_get_and_log_device_stats\<close>: the snapshot \<^verbatim>\<open>device_stats\<close>
  as it stands when the loop over the loggers starts, with the queries made for it.
  \<^verbatim>\<open>get_cpu_process_metrics\<close> is imported from another module and is a parameter.
\<close>

definition collect_device_stats ::
  "device_stats_monitor \<Rightarrow> 'v trainer \<Rightarrow> (unit \<Rightarrow> 'v dict) \<Rightarrow> 'v dict \<times> 'v event list" where
  "collect_device_stats self trainer get_cpu_process_metrics =
     (let device = root_device trainer;
          (device_stats, calls) =
             (if cpu_stats self = None \<or> cpu_stats self = Some True
              then (get_device_stats trainer device, [GetDeviceStats device])
              else ([], []))
      in if cpu_stats self = Some True \<and> device_type device \<noteq> ''cpu''
         then (dict_update device_stats (get_cpu_process_metrics ()),
               calls @ [GetCpuProcessMetrics])
         else (device_stats, calls))"

text \<open>Lines 88 to 91: the loop over \<^verbatim>\<open>trainer.loggers\<close>.\<close>

fun log_to_loggers :: "logger list \<Rightarrow> 'v dict \<Rightarrow> string \<Rightarrow> int \<Rightarrow> 'v event list" where
  "log_to_loggers [] device_stats key step = []"
| "log_to_loggers (logger # rest) device_stats key step =
     (let separator = group_separator logger;
          prefixed_device_stats = priv_prefix_metric_keys device_stats key separator
      in LogMetrics logger prefixed_device_stats step
           # log_to_loggers rest device_stats key step)"

text \<open>
  \<^verbatim>\<open>_get_and_log_device_stats\<close>. The arguments \<^verbatim>\<open>pl_module\<close>, \<^verbatim>\<open>batch\<close> and
  \<^verbatim>\<open>batch_idx\<close> are never read and are left out.
\<close>

definition priv_get_and_log_device_stats ::
  "device_stats_monitor \<Rightarrow> 'v trainer \<Rightarrow> (unit \<Rightarrow> 'v dict) \<Rightarrow> string \<Rightarrow> 'v outcome" where
  "priv_get_and_log_device_stats self trainer get_cpu_process_metrics key =
     (if loggers trainer = [] then (Inl (MisconfigurationException sampling_message), [])
      else if \<not> should_update_logs trainer then (Inr (), [])
      else
        (let (device_stats, calls) = collect_device_stats self trainer get_cpu_process_metrics
         in (Inr (),
             calls @ log_to_loggers (loggers trainer) device_stats key (global_step trainer))))"

definition on_train_batch_start ::
  "device_stats_monitor \<Rightarrow> 'v trainer \<Rightarrow> (unit \<Rightarrow> 'v dict) \<Rightarrow> 'v outcome" where
  "on_train_batch_start self trainer get_cpu_process_metrics =
     priv_get_and_log_device_stats self trainer get_cpu_process_metrics ''on_train_batch_start''"

definition on_train_batch_end ::
  "device_stats_monitor \<Rightarrow> 'v trainer \<Rightarrow> (unit \<Rightarrow> 'v dict) \<Rightarrow> 'v outcome" where
  "on_train_batch_end self trainer get_cpu_process_metrics =
     priv_get_and_log_device_stats self trainer get_cpu_process_metrics ''on_train_batch_end''"

subsection \<open>Predicates of the statements\<close>

text \<open>
  Two entries differ only by the namespacing prefix when the key of the second is
  prefix, separator and the key of the first, and the values agree.
\<close>

definition differ_only_by_prefix ::
  "string \<Rightarrow> string \<Rightarrow> string \<times> 'v \<Rightarrow> string \<times> 'v \<Rightarrow> bool" where
  "differ_only_by_prefix prefix separator e1 e2 =
     (fst e2 = prefix @ separator @ fst e1 \<and> snd e2 = snd e1)"

definition has_prefix_pair :: "string \<Rightarrow> string \<Rightarrow> 'v dict \<Rightarrow> bool" where
  "has_prefix_pair prefix separator m =
     (\<exists>e1 \<in> set m. \<exists>e2 \<in> set m. differ_only_by_prefix prefix separator e1 e2)"

subsection \<open>Concrete configurations\<close>

definition cpu_device :: device where
  "cpu_device = \<lparr>device_type = ''cpu''\<rparr>"

definition cuda_device :: device where
  "cuda_device = \<lparr>device_type = ''cuda''\<rparr>"

definition sink_slash :: logger where
  "sink_slash = \<lparr>logger_name = ''first'', group_separator = ''/''\<rparr>"

definition sink_dot :: logger where
  "sink_dot = \<lparr>logger_name = ''second'', group_separator = ''.''\<rparr>"

definition stats_a :: "device \<Rightarrow> real dict" where
  "stats_a d = [(''a'', 1)]"

definition stats_ab :: "device \<Rightarrow> real dict" where
  "stats_ab d = [(''a'', 1), (''b'', 2)]"

definition stats_nested :: "device \<Rightarrow> real dict" where
  "stats_nested d = [(''a'', 1), (''L/a'', 1)]"

definition process_bc :: "unit \<Rightarrow> real dict" where
  "process_bc u = [(''b'', 5), (''c'', 3)]"

definition example_trainer ::
  "logger list \<Rightarrow> bool \<Rightarrow> device \<Rightarrow> (device \<Rightarrow> real dict) \<Rightarrow> real trainer" where
  "example_trainer ls emit dev stats =
     \<lparr>loggers = ls, should_update_logs = emit, root_device = dev,
      get_device_stats = stats, global_step = 7\<rparr>"

section \<open>Dictionary lemmas\<close>

lemma dict_setitem_fresh:
  "k \<notin> fst ` set d \<Longrightarrow> dict_setitem d k v = d @ [(k, v)]"
  by (induction d) auto

lemma map_of_dict_setitem: "map_of (dict_setitem d k v) = (map_of d)(k \<mapsto> v)"
  by (induction d) (auto simp: fun_eq_iff)

lemma map_fst_dict_setitem:
  "map fst (dict_setitem d k v) = (if k \<in> set (map fst d) then map fst d else map fst d @ [k])"
  by (induction d k v rule: dict_setitem.induct) simp_all

lemma distinct_dict_setitem:
  "distinct (map fst d) \<Longrightarrow> distinct (map fst (dict_setitem d k v))"
  by (simp add: map_fst_dict_setitem)

lemma wf_dict_update: "wf_dict d \<Longrightarrow> wf_dict (dict_update d other)"
  unfolding wf_dict_def
  by (induction d other rule: dict_update.induct) (simp_all add: distinct_dict_setitem)

lemma map_of_dict_update:
  "distinct (map fst other) \<Longrightarrow> map_of (dict_update d other) = map_of d ++ map_of other"
proof (induction d other rule: dict_update.induct)
  case (1 d)
  then show ?case by simp
next
  case (2 d k v other)
  then have notin: "k \<notin> dom (map_of other)" and dist: "distinct (map fst other)"
    by (auto simp: dom_map_of_conv_image_fst)
  have "map_of (dict_update (dict_setitem d k v) other) = (map_of d)(k \<mapsto> v) ++ map_of other"
    using "2.IH" [OF dist] by (simp only: map_of_dict_setitem)
  also have "\<dots> = (map_of d ++ map_of other)(k \<mapsto> v)"
    by (rule map_add_upd_left [OF notin])
  also have "\<dots> = map_of d ++ map_of ((k, v) # other)"
    by (simp only: map_of.simps fst_conv snd_conv map_add_upd)
  finally show ?case by (simp only: dict_update.simps)
qed

lemma prefix_comprehension_distinct:
  "distinct (map fst items) \<Longrightarrow>
   fst ` set acc \<inter> (\<lambda>k. prefix @ separator @ k) ` fst ` set items = {} \<Longrightarrow>
   prefix_comprehension acc prefix separator items =
     acc @ map (\<lambda>(k, v). (prefix @ separator @ k, v)) items"
proof (induction items arbitrary: acc)
  case Nil
  then show ?case by simp
next
  case (Cons kv items)
  obtain k v where kv: "kv = (k, v)" by (cases kv)
  from Cons.prems kv have fresh: "prefix @ separator @ k \<notin> fst ` set acc"
    by auto
  from Cons.prems kv have notin: "k \<notin> fst ` set items" and dist: "distinct (map fst items)"
    by auto
  have disj: "fst ` set (acc @ [(prefix @ separator @ k, v)])
      \<inter> (\<lambda>k. prefix @ separator @ k) ` fst ` set items = {}"
    using Cons.prems(2) notin by (auto simp: kv)
  show ?case
    using Cons.IH [OF dist disj] by (simp add: kv dict_setitem_fresh [OF fresh])
qed

lemma priv_prefix_metric_keys_map:
  "wf_dict d \<Longrightarrow>
   priv_prefix_metric_keys d prefix separator = map (\<lambda>(k, v). (prefix @ separator @ k, v)) d"
  using prefix_comprehension_distinct [of d "[]" prefix separator]
  by (simp add: priv_prefix_metric_keys_def wf_dict_def)

lemma priv_prefix_metric_keys_empty: "priv_prefix_metric_keys [] prefix separator = []"
  by (simp add: priv_prefix_metric_keys_def)

lemma map_of_prefixed_items:
  "map_of (map (\<lambda>(k, v). (prefix @ separator @ k, v)) d) (prefix @ separator @ k) = map_of d k"
  by (induction d) auto

lemma wf_prefixed: "wf_dict d \<Longrightarrow> wf_dict (priv_prefix_metric_keys d prefix separator)"
proof -
  assume wf: "wf_dict d"
  have "map fst (map (\<lambda>(k, v). (prefix @ separator @ k, v)) d)
      = map (\<lambda>k. prefix @ separator @ k) (map fst d)"
    by (induction d) auto
  moreover have "inj_on (\<lambda>k. prefix @ separator @ k) (set (map fst d))"
    by (rule inj_onI) simp
  ultimately show ?thesis
    using wf by (simp add: priv_prefix_metric_keys_map wf_dict_def distinct_map del: map_map)
qed

lemma has_prefix_pair_prefixed:
  "has_prefix_pair prefix separator (map (\<lambda>(k, v). (prefix @ separator @ k, v)) d)
     = has_prefix_pair prefix separator d"
proof
  assume "has_prefix_pair prefix separator (map (\<lambda>(k, v). (prefix @ separator @ k, v)) d)"
  then obtain k1 v1 k2 v2 where "(k1, v1) \<in> set d" "(k2, v2) \<in> set d"
    and "prefix @ separator @ k2 = prefix @ separator @ prefix @ separator @ k1" "v2 = v1"
    by (auto simp: has_prefix_pair_def differ_only_by_prefix_def)
  then have "(k1, v1) \<in> set d" "(prefix @ separator @ k1, v1) \<in> set d"
    by simp_all
  then show "has_prefix_pair prefix separator d"
    unfolding has_prefix_pair_def differ_only_by_prefix_def
    by (intro bexI [of _ "(k1, v1)"] bexI [of _ "(prefix @ separator @ k1, v1)"]) simp_all
next
  assume "has_prefix_pair prefix separator d"
  then obtain k1 v1 where "(k1, v1) \<in> set d" "(prefix @ separator @ k1, v1) \<in> set d"
    by (auto simp: has_prefix_pair_def differ_only_by_prefix_def)
  then have "(prefix @ separator @ k1, v1) \<in> set (map (\<lambda>(k, v). (prefix @ separator @ k, v)) d)"
    and "(prefix @ separator @ prefix @ separator @ k1, v1)
           \<in> set (map (\<lambda>(k, v). (prefix @ separator @ k, v)) d)"
    by force+
  then show "has_prefix_pair prefix separator (map (\<lambda>(k, v). (prefix @ separator @ k, v)) d)"
    unfolding has_prefix_pair_def differ_only_by_prefix_def
    by (intro bexI [of _ "(prefix @ separator @ k1, v1)"]
          bexI [of _ "(prefix @ separator @ prefix @ separator @ k1, v1)"]) simp_all
qed

section \<open>Lemmas on the sampling call\<close>

lemma log_to_loggers_map:
  "log_to_loggers ls device_stats key step =
     map (\<lambda>lg. LogMetrics lg (priv_prefix_metric_keys device_stats key (group_separator lg)) step) ls"
  by (induction ls) simp_all

lemma no_device_query_in_loop:
  "filter is_device_query (log_to_loggers ls device_stats key step) = []"
  by (induction ls) simp_all

lemma no_process_query_in_loop:
  "filter is_process_query (log_to_loggers ls device_stats key step) = []"
  by (induction ls) simp_all

lemma only_log_metrics_in_loop:
  "filter is_log_metrics (log_to_loggers ls device_stats key step) =
     log_to_loggers ls device_stats key step"
  by (induction ls) simp_all

lemma collect_disabled:
  "cpu_stats self = Some False \<Longrightarrow> collect_device_stats self trainer cpu = ([], [])"
  by (simp add: collect_device_stats_def)

lemma collect_device_only:
  "cpu_stats self = None \<or> cpu_stats self = Some True \<and> device_type (root_device trainer) = ''cpu'' \<Longrightarrow>
   collect_device_stats self trainer cpu =
     (get_device_stats trainer (root_device trainer), [GetDeviceStats (root_device trainer)])"
  by (auto simp: collect_device_stats_def Let_def)

lemma collect_both:
  "cpu_stats self = Some True \<Longrightarrow> device_type (root_device trainer) \<noteq> ''cpu'' \<Longrightarrow>
   collect_device_stats self trainer cpu =
     (dict_update (get_device_stats trainer (root_device trainer)) (cpu ()),
      [GetDeviceStats (root_device trainer), GetCpuProcessMetrics])"
  by (simp add: collect_device_stats_def Let_def)

lemma no_log_metrics_in_collect:
  "filter is_log_metrics (snd (collect_device_stats self trainer cpu)) = []"
  by (simp add: collect_device_stats_def Let_def)

lemma wf_collect:
  "wf_dict (get_device_stats trainer (root_device trainer)) \<Longrightarrow>
   wf_dict (fst (collect_device_stats self trainer cpu))"
  by (simp add: collect_device_stats_def Let_def wf_dict_update) (simp add: wf_dict_def)

lemma emitting_call:
  "loggers trainer \<noteq> [] \<Longrightarrow> should_update_logs trainer \<Longrightarrow>
   priv_get_and_log_device_stats self trainer cpu key =
     (Inr (),
      snd (collect_device_stats self trainer cpu)
        @ log_to_loggers (loggers trainer) (fst (collect_device_stats self trainer cpu)) key
            (global_step trainer))"
  by (simp add: priv_get_and_log_device_stats_def split_def Let_def)

lemma call_when_skipping:
  "loggers trainer \<noteq> [] \<Longrightarrow> \<not> should_update_logs trainer \<Longrightarrow>
   priv_get_and_log_device_stats self trainer cpu key = (Inr (), [])"
  by (simp add: priv_get_and_log_device_stats_def)

lemma call_without_loggers:
  "loggers trainer = [] \<Longrightarrow>
   priv_get_and_log_device_stats self trainer cpu key =
     (Inl (MisconfigurationException sampling_message), [])"
  by (simp add: priv_get_and_log_device_stats_def)

lemma device_queries_of_collect:
  "filter is_device_query (snd (collect_device_stats self trainer cpu)) =
     (if cpu_stats self = None \<or> cpu_stats self = Some True
      then [GetDeviceStats (root_device trainer)] else [])"
  by (simp add: collect_device_stats_def Let_def)

lemma process_queries_of_collect:
  "filter is_process_query (snd (collect_device_stats self trainer cpu)) =
     (if cpu_stats self = Some True \<and> device_type (root_device trainer) \<noteq> ''cpu''
      then [GetCpuProcessMetrics] else [])"
  by (simp add: collect_device_stats_def Let_def)

lemma device_queries_of_call:
  "filter is_device_query (snd (priv_get_and_log_device_stats self trainer cpu key)) =
     (if loggers trainer \<noteq> [] \<and> should_update_logs trainer
         \<and> (cpu_stats self = None \<or> cpu_stats self = Some True)
      then [GetDeviceStats (root_device trainer)] else [])"
proof (cases "loggers trainer = []")
  case True
  then show ?thesis by (simp add: call_without_loggers)
next
  case False
  then show ?thesis
    by (cases "should_update_logs trainer")
      (simp_all add: call_when_skipping emitting_call device_queries_of_collect
        no_device_query_in_loop)
qed

lemma process_queries_of_call:
  "filter is_process_query (snd (priv_get_and_log_device_stats self trainer cpu key)) =
     (if loggers trainer \<noteq> [] \<and> should_update_logs trainer
         \<and> cpu_stats self = Some True \<and> device_type (root_device trainer) \<noteq> ''cpu''
      then [GetCpuProcessMetrics] else [])"
proof (cases "loggers trainer = []")
  case True
  then show ?thesis by (simp add: call_without_loggers)
next
  case False
  then show ?thesis
    by (cases "should_update_logs trainer")
      (simp_all add: call_when_skipping emitting_call process_queries_of_collect
        no_process_query_in_loop)
qed

lemma log_calls_of_emitting_call:
  "loggers trainer \<noteq> [] \<Longrightarrow> should_update_logs trainer \<Longrightarrow>
   filter is_log_metrics (snd (priv_get_and_log_device_stats self trainer cpu key)) =
     log_to_loggers (loggers trainer) (fst (collect_device_stats self trainer cpu)) key
       (global_step trainer)"
  by (simp add: emitting_call no_log_metrics_in_collect only_log_metrics_in_loop)

section \<open>The claims\<close>

text \<open>
  C1. Whatever the configuration, when the trainer's logger list is empty, \<open>setup\<close>
  and every sampling call (with any key, and so both hooks
  \<open>on_train_batch_start\<close> and \<open>on_train_batch_end\<close>) raise
  \<open>MisconfigurationException\<close> and make no call to a collaborator at all, so none to a
  logger's \<open>log_metrics\<close>.
\<close>

theorem empty_loggers_raise:
  assumes "loggers trainer = []"
  shows "setup_callback self trainer = (Inl (MisconfigurationException setup_message), [])
    \<and> priv_get_and_log_device_stats self trainer cpu key =
        (Inl (MisconfigurationException sampling_message), [])
    \<and> on_train_batch_start self trainer cpu =
        (Inl (MisconfigurationException sampling_message), [])
    \<and> on_train_batch_end self trainer cpu =
        (Inl (MisconfigurationException sampling_message), [])"
  using assms
  by (simp add: setup_callback_def on_train_batch_start_def on_train_batch_end_def
      call_without_loggers)

theorem empty_loggers_raise_witness:
  "loggers (example_trainer [] True cuda_device stats_a) = []
   \<and> setup_callback (init (Some True)) (example_trainer [] True cuda_device stats_a) =
       (Inl (MisconfigurationException setup_message), [])
   \<and> on_train_batch_start (init (Some True)) (example_trainer [] True cuda_device stats_a)
       process_bc = (Inl (MisconfigurationException sampling_message), [])
   \<and> on_train_batch_end (init (Some True)) (example_trainer [] True cuda_device stats_a)
       process_bc = (Inl (MisconfigurationException sampling_message), [])"
proof -
  have h: "loggers (example_trainer [] True cuda_device stats_a) = []"
    by (simp add: example_trainer_def)
  show ?thesis
    using h empty_loggers_raise [OF h, of "init (Some True)" process_bc "''L''"] by simp
qed

text \<open>
  C2. For every snapshot (a dictionary: no key twice), label and separator,
  \<open>_prefix_metric_keys\<close> returns the items of the snapshot in their order, each key
  rewritten to label, separator, key, and each value as it was; looking the rewritten
  key up gives the value of the original key; the mapping sent to a logger is this
  rewrite with the logger's separator. The snapshot \<open>{"a": 1.0}\<close> with label \<open>L\<close> and
  separator \<open>/\<close> gives exactly \<open>{"L/a": 1.0}\<close>. The result is a function of the three
  inputs alone: equal inputs give equal mappings.
\<close>

theorem prefix_rewrites_every_key:
  assumes "wf_dict snapshot"
  shows "priv_prefix_metric_keys snapshot label separator =
           map (\<lambda>(k, v). (label @ separator @ k, v)) snapshot
    \<and> (\<forall>k. dict_get (priv_prefix_metric_keys snapshot label separator) (label @ separator @ k)
             = dict_get snapshot k)
    \<and> dict_keys (priv_prefix_metric_keys snapshot label separator)
        = (\<lambda>k. label @ separator @ k) ` dict_keys snapshot
    \<and> wf_dict (priv_prefix_metric_keys snapshot label separator)
    \<and> log_to_loggers [lg] snapshot label step =
        [LogMetrics lg (map (\<lambda>(k, v). (label @ group_separator lg @ k, v)) snapshot) step]
    \<and> priv_prefix_metric_keys [(''a'', 1 :: real)] ''L'' ''/'' = [(''L/a'', 1)]
    \<and> (\<forall>snapshot' label' separator'.
          snapshot' = snapshot \<and> label' = label \<and> separator' = separator \<longrightarrow>
          priv_prefix_metric_keys snapshot' label' separator' =
            priv_prefix_metric_keys snapshot label separator)"
proof -
  have closed: "priv_prefix_metric_keys snapshot label separator =
      map (\<lambda>(k, v). (label @ separator @ k, v)) snapshot" for separator
    using assms by (rule priv_prefix_metric_keys_map)
  have keys: "dict_keys (map (\<lambda>(k, v). (label @ separator @ k, v)) snapshot)
      = (\<lambda>k. label @ separator @ k) ` dict_keys snapshot"
    unfolding dict_keys_def by force
  have example: "priv_prefix_metric_keys [(''a'', 1 :: real)] ''L'' ''/'' = [(''L/a'', 1)]"
    by (simp add: priv_prefix_metric_keys_def)
  show ?thesis
    using wf_prefixed [OF assms, of label separator] keys example
    by (simp add: closed dict_get_def map_of_prefixed_items)
qed

theorem prefix_rewrites_every_key_witness:
  "wf_dict [(''a'', 1 :: real), (''b'', 2)]
   \<and> priv_prefix_metric_keys [(''a'', 1 :: real), (''b'', 2)] ''L'' ''/''
       = [(''L/a'', 1), (''L/b'', 2)]
   \<and> dict_get (priv_prefix_metric_keys [(''a'', 1 :: real), (''b'', 2)] ''L'' ''/'') ''L/b''
       = Some 2"
proof -
  have h: "wf_dict [(''a'', 1 :: real), (''b'', 2)]"
    by (simp add: wf_dict_def)
  show ?thesis
    using h prefix_rewrites_every_key [OF h, of "''L''" "''/''" sink_slash 0]
    by (simp add: dict_get_def)
qed

text \<open>
  C8. For every metric dictionary and prefix, the deprecated \<open>prefix_metric_keys\<close>
  returns the items with each key rewritten to prefix, key (no separator) and each
  value as it was. Its effects are those of its one call of \<open>rank_zero_deprecation\<close>
  with the deprecation message, whatever that helper does; with the helper as the spec
  gives it, they are exactly one deprecation notice, carrying that message, and
  nothing else. \<open>{"x": 2.0}\<close> with prefix \<open>p\<close> gives exactly \<open>{"px": 2.0}\<close>.
\<close>

theorem deprecated_prefix_metric_keys:
  assumes "wf_dict metrics"
  shows "fst (prefix_metric_keys metrics prefix) = map (\<lambda>(k, v). (prefix @ k, v)) metrics
    \<and> snd (prefix_metric_keys metrics prefix) = rank_zero_deprecation deprecation_message
    \<and> snd (prefix_metric_keys metrics prefix) = [DeprecationNotice deprecation_message]
    \<and> length (filter is_deprecation (snd (prefix_metric_keys metrics prefix))) = 1
    \<and> filter (\<lambda>e. \<not> is_deprecation e) (snd (prefix_metric_keys metrics prefix)) = []
    \<and> prefix_metric_keys [(''x'', 2 :: real)] ''p'' =
        ([(''px'', 2)], [DeprecationNotice deprecation_message])"
proof -
  have rewritten: "priv_prefix_metric_keys metrics prefix '''' =
      map (\<lambda>(k, v). (prefix @ k, v)) metrics"
    using priv_prefix_metric_keys_map [OF assms, of prefix "''''"] by simp
  have example: "priv_prefix_metric_keys [(''x'', 2 :: real)] ''p'' '''' = [(''px'', 2)]"
    by (simp add: priv_prefix_metric_keys_def)
  have call: "snd (prefix_metric_keys metrics prefix) = rank_zero_deprecation deprecation_message"
    by (simp add: prefix_metric_keys_def Let_def)
  have notices: "snd (prefix_metric_keys metrics prefix) = [DeprecationNotice deprecation_message]"
    by (simp add: call rank_zero_deprecation_def)
  have result: "fst (prefix_metric_keys metrics prefix) = map (\<lambda>(k, v). (prefix @ k, v)) metrics"
    by (simp add: prefix_metric_keys_def Let_def rewritten)
  have run: "prefix_metric_keys [(''x'', 2 :: real)] ''p'' =
      ([(''px'', 2)], [DeprecationNotice deprecation_message])"
    by (simp add: prefix_metric_keys_def Let_def example rank_zero_deprecation_def)
  have count: "length (filter is_deprecation (snd (prefix_metric_keys metrics prefix))) = 1"
    by (simp add: notices)
  have nothing_else:
    "filter (\<lambda>e. \<not> is_deprecation e) (snd (prefix_metric_keys metrics prefix)) = []"
    by (simp add: notices)
  show ?thesis
    by (intro conjI result call notices count nothing_else run)
qed

theorem deprecated_prefix_metric_keys_witness:
  "wf_dict [(''x'', 2 :: real), (''y'', 3)]
   \<and> prefix_metric_keys [(''x'', 2 :: real), (''y'', 3)] ''p'' =
       ([(''px'', 2), (''py'', 3)], [DeprecationNotice deprecation_message])"
proof -
  have h: "wf_dict [(''x'', 2 :: real), (''y'', 3)]"
    by (simp add: wf_dict_def)
  show ?thesis
    using h deprecated_prefix_metric_keys [OF h, of "''p''"]
    by (simp add: prod_eq_iff rank_zero_deprecation_def)
qed

text \<open>
  C10. With \<open>cpu_stats\<close> explicitly false, a sampling call that has loggers and is
  allowed by \<open>should_update_logs\<close> makes no query and calls \<open>log_metrics\<close> on every
  logger, in their order, with the empty dictionary and the global step.
\<close>

theorem cpu_stats_false_logs_empty:
  assumes "cpu_stats self = Some False"
    and "loggers trainer \<noteq> []"
    and "should_update_logs trainer"
  shows "priv_get_and_log_device_stats self trainer cpu key =
           (Inr (), map (\<lambda>lg. LogMetrics lg [] (global_step trainer)) (loggers trainer))
    \<and> on_train_batch_start self trainer cpu =
           (Inr (), map (\<lambda>lg. LogMetrics lg [] (global_step trainer)) (loggers trainer))
    \<and> on_train_batch_end self trainer cpu =
           (Inr (), map (\<lambda>lg. LogMetrics lg [] (global_step trainer)) (loggers trainer))"
  using assms
  by (simp add: on_train_batch_start_def on_train_batch_end_def emitting_call collect_disabled
      log_to_loggers_map priv_prefix_metric_keys_empty)

theorem cpu_stats_false_logs_empty_witness:
  "cpu_stats (init (Some False)) = Some False
   \<and> loggers (example_trainer [sink_slash, sink_dot] True cuda_device stats_ab) \<noteq> []
   \<and> should_update_logs (example_trainer [sink_slash, sink_dot] True cuda_device stats_ab)
   \<and> on_train_batch_end (init (Some False))
       (example_trainer [sink_slash, sink_dot] True cuda_device stats_ab) process_bc =
       (Inr (), [LogMetrics sink_slash [] 7, LogMetrics sink_dot [] 7])"
proof -
  have h1: "cpu_stats (init (Some False)) = Some False"
    by (simp add: init_def)
  have h2: "loggers (example_trainer [sink_slash, sink_dot] True cuda_device stats_ab) \<noteq> []"
    by (simp add: example_trainer_def)
  have h3: "should_update_logs (example_trainer [sink_slash, sink_dot] True cuda_device stats_ab)"
    by (simp add: example_trainer_def)
  show ?thesis
    using h1 h2 h3 cpu_stats_false_logs_empty [OF h1 h2 h3, of process_bc "''L''"]
    by (simp add: example_trainer_def)
qed

text \<open>
  C6. In every sampling call (any key, both hooks, whatever the loggers and
  \<open>should_update_logs\<close>), \<open>get_cpu_process_metrics\<close> is not called when \<open>cpu_stats\<close> is
  explicitly false, whatever the device type, nor when \<open>cpu_stats\<close> is explicitly true
  and the root device has type \<open>cpu\<close>.
\<close>

theorem process_metrics_not_queried:
  assumes "cpu_stats self = Some False
      \<or> (cpu_stats self = Some True \<and> device_type (root_device trainer) = ''cpu'')"
  shows "filter is_process_query (snd (priv_get_and_log_device_stats self trainer cpu key)) = []
    \<and> filter is_process_query (snd (on_train_batch_start self trainer cpu)) = []
    \<and> filter is_process_query (snd (on_train_batch_end self trainer cpu)) = []"
  using assms
  by (auto simp: on_train_batch_start_def on_train_batch_end_def process_queries_of_call)

theorem process_metrics_not_queried_witness:
  "cpu_stats (init (Some False)) = Some False
   \<and> filter is_process_query (snd (on_train_batch_start (init (Some False))
        (example_trainer [sink_slash] True cuda_device stats_ab) process_bc)) = []
   \<and> cpu_stats (init (Some True)) = Some True
   \<and> device_type (root_device (example_trainer [sink_slash] True cpu_device stats_ab)) = ''cpu''
   \<and> filter is_process_query (snd (on_train_batch_start (init (Some True))
        (example_trainer [sink_slash] True cpu_device stats_ab) process_bc)) = []"
proof -
  have h1: "cpu_stats (init (Some False)) = Some False"
    by (simp add: init_def)
  have h2: "cpu_stats (init (Some True)) = Some True"
    and h3: "device_type (root_device (example_trainer [sink_slash] True cpu_device stats_ab))
      = ''cpu''"
    by (simp_all add: init_def example_trainer_def cpu_device_def)
  show ?thesis
    using h1 h2 h3
      process_metrics_not_queried [OF disjI1 [OF h1], of
        "example_trainer [sink_slash] True cuda_device stats_ab" process_bc "''L''"]
      process_metrics_not_queried [OF disjI2 [OF conjI [OF h2 h3]], of process_bc "''L''"]
    by simp
qed

text \<open>
  C4, as stated, fails where the logger list is empty: the check of the loggers comes
  before the check of \<open>should_update_logs\<close>, so such a call raises
  \<open>MisconfigurationException\<close> although the predicate says skip.
\<close>

theorem skip_without_loggers_counterexample:
  "\<not> should_update_logs (example_trainer [] False cuda_device stats_ab)
   \<and> fst (on_train_batch_start (init None) (example_trainer [] False cuda_device stats_ab)
        process_bc) = Inl (MisconfigurationException sampling_message)"
  by (simp add: on_train_batch_start_def priv_get_and_log_device_stats_def example_trainer_def)

text \<open>
  C4, amended. In every sampling call in which \<open>should_update_logs\<close> is false, no
  query and no logger call is made (the call makes no call at all); the call returns
  normally when the logger list is not empty, and raises \<open>MisconfigurationException\<close>
  when it is empty.
\<close>

theorem skipped_call_makes_no_call:
  assumes "\<not> should_update_logs trainer"
  shows "priv_get_and_log_device_stats self trainer cpu key =
           (if loggers trainer = [] then Inl (MisconfigurationException sampling_message)
            else Inr (), [])
    \<and> on_train_batch_start self trainer cpu =
           (if loggers trainer = [] then Inl (MisconfigurationException sampling_message)
            else Inr (), [])
    \<and> on_train_batch_end self trainer cpu =
           (if loggers trainer = [] then Inl (MisconfigurationException sampling_message)
            else Inr (), [])"
  using assms
  by (simp add: on_train_batch_start_def on_train_batch_end_def call_without_loggers
      call_when_skipping)

theorem skipped_call_makes_no_call_witness:
  "\<not> should_update_logs (example_trainer [sink_slash, sink_dot] False cuda_device stats_ab)
   \<and> on_train_batch_start (init (Some True))
       (example_trainer [sink_slash, sink_dot] False cuda_device stats_ab) process_bc
     = (Inr (), [])"
proof -
  have h: "\<not> should_update_logs (example_trainer [sink_slash, sink_dot] False cuda_device stats_ab)"
    by (simp add: example_trainer_def)
  show ?thesis
    using h skipped_call_makes_no_call [OF h, of "init (Some True)" process_bc "''L''"]
    by (simp add: example_trainer_def)
qed

text \<open>
  C7, as stated, fails for a call that \<open>should_update_logs\<close> skips: with \<open>cpu_stats\<close>
  unset, such a call makes no device query.
\<close>

theorem unset_skipped_call_counterexample:
  "cpu_stats (init None) = None
   \<and> length (filter is_device_query (snd (on_train_batch_end (init None)
        (example_trainer [sink_slash] False cuda_device stats_ab) process_bc))) = 0"
  by (simp add: on_train_batch_end_def priv_get_and_log_device_stats_def example_trainer_def
      init_def)

text \<open>
  C7, amended. With \<open>cpu_stats\<close> unset or explicitly true, every sampling call that has
  a logger and that \<open>should_update_logs\<close> allows calls \<open>get_device_stats\<close> exactly
  once, on the root device.
\<close>

theorem device_metrics_queried_once:
  assumes "cpu_stats self = None \<or> cpu_stats self = Some True"
    and "loggers trainer \<noteq> []"
    and "should_update_logs trainer"
  shows "filter is_device_query (snd (priv_get_and_log_device_stats self trainer cpu key))
           = [GetDeviceStats (root_device trainer)]
    \<and> filter is_device_query (snd (on_train_batch_start self trainer cpu))
           = [GetDeviceStats (root_device trainer)]
    \<and> filter is_device_query (snd (on_train_batch_end self trainer cpu))
           = [GetDeviceStats (root_device trainer)]"
  using assms
  by (auto simp: on_train_batch_start_def on_train_batch_end_def device_queries_of_call)

theorem device_metrics_queried_once_witness:
  "(cpu_stats (init None) = None \<or> cpu_stats (init None) = Some True)
   \<and> loggers (example_trainer [sink_slash] True cpu_device stats_ab) \<noteq> []
   \<and> should_update_logs (example_trainer [sink_slash] True cpu_device stats_ab)
   \<and> filter is_device_query (snd (on_train_batch_start (init None)
        (example_trainer [sink_slash] True cpu_device stats_ab) process_bc))
       = [GetDeviceStats cpu_device]"
proof -
  have h1: "cpu_stats (init None) = None \<or> cpu_stats (init None) = Some True"
    by (simp add: init_def)
  have h2: "loggers (example_trainer [sink_slash] True cpu_device stats_ab) \<noteq> []"
    and h3: "should_update_logs (example_trainer [sink_slash] True cpu_device stats_ab)"
    by (simp_all add: example_trainer_def)
  show ?thesis
    using h1 h2 h3 device_metrics_queried_once [OF h1 h2 h3, of process_bc "''L''"]
    by (simp add: example_trainer_def)
qed

text \<open>
  C5. With two loggers whose separators are \<open>/\<close> and \<open>.\<close>, a sampling call that
  \<open>should_update_logs\<close> allows, with key \<open>L\<close> and a snapshot \<open>{"a": v}\<close> (whatever
  the configuration that produced it, and for every value \<open>v\<close>, so for \<open>1.0\<close>), makes
  exactly two \<open>log_metrics\<close> calls: \<open>{"L/a": v}\<close> on the first logger, then
  \<open>{"L.a": v}\<close> on the second, both with the trainer's global step.
\<close>

theorem two_logger_fan_out:
  assumes "loggers trainer = [first, second]"
    and "group_separator first = ''/''"
    and "group_separator second = ''.''"
    and "should_update_logs trainer"
    and "fst (collect_device_stats self trainer cpu) = [(''a'', v)]"
  shows "fst (priv_get_and_log_device_stats self trainer cpu ''L'') = Inr ()
    \<and> filter is_log_metrics (snd (priv_get_and_log_device_stats self trainer cpu ''L'')) =
        [LogMetrics first [(''L/a'', v)] (global_step trainer),
         LogMetrics second [(''L.a'', v)] (global_step trainer)]"
proof -
  have nonempty: "loggers trainer \<noteq> []"
    using assms(1) by simp
  have "priv_prefix_metric_keys [(''a'', v)] ''L'' ''/'' = [(''L/a'', v)]"
    and "priv_prefix_metric_keys [(''a'', v)] ''L'' ''.'' = [(''L.a'', v)]"
    by (simp_all add: priv_prefix_metric_keys_def)
  then have "filter is_log_metrics (snd (priv_get_and_log_device_stats self trainer cpu ''L'')) =
      [LogMetrics first [(''L/a'', v)] (global_step trainer),
       LogMetrics second [(''L.a'', v)] (global_step trainer)]"
    using assms by (simp add: log_calls_of_emitting_call [OF nonempty assms(4)])
  moreover have "fst (priv_get_and_log_device_stats self trainer cpu ''L'') = Inr ()"
    by (simp add: emitting_call [OF nonempty assms(4)])
  ultimately show ?thesis by simp
qed

theorem two_logger_fan_out_witness:
  "loggers (example_trainer [sink_slash, sink_dot] True cuda_device stats_a)
     = [sink_slash, sink_dot]
   \<and> group_separator sink_slash = ''/'' \<and> group_separator sink_dot = ''.''
   \<and> should_update_logs (example_trainer [sink_slash, sink_dot] True cuda_device stats_a)
   \<and> fst (collect_device_stats (init None)
        (example_trainer [sink_slash, sink_dot] True cuda_device stats_a) process_bc)
       = [(''a'', 1)]
   \<and> filter is_log_metrics (snd (priv_get_and_log_device_stats (init None)
        (example_trainer [sink_slash, sink_dot] True cuda_device stats_a) process_bc ''L''))
       = [LogMetrics sink_slash [(''L/a'', 1)] 7, LogMetrics sink_dot [(''L.a'', 1)] 7]"
proof -
  have h1: "loggers (example_trainer [sink_slash, sink_dot] True cuda_device stats_a)
      = [sink_slash, sink_dot]"
    and h4: "should_update_logs (example_trainer [sink_slash, sink_dot] True cuda_device stats_a)"
    by (simp_all add: example_trainer_def)
  have h2: "group_separator sink_slash = ''/''" and h3: "group_separator sink_dot = ''.''"
    by (simp_all add: sink_slash_def sink_dot_def)
  have h5: "fst (collect_device_stats (init None)
      (example_trainer [sink_slash, sink_dot] True cuda_device stats_a) process_bc)
      = [(''a'', 1)]"
    by (simp add: collect_device_stats_def init_def example_trainer_def stats_a_def)
  show ?thesis
    using h1 h2 h3 h4 h5 two_logger_fan_out [OF h1 h2 h3 h4 h5]
    by (simp add: example_trainer_def)
qed

text \<open>
  C3, as stated, fails for a call that \<open>should_update_logs\<close> skips: with \<open>cpu_stats\<close>
  explicitly true and a root device of type \<open>cuda\<close>, such a call makes neither query.
\<close>

theorem cpu_stats_true_skipped_call_counterexample:
  "cpu_stats (init (Some True)) = Some True
   \<and> device_type (root_device (example_trainer [sink_slash] False cuda_device stats_ab)) \<noteq> ''cpu''
   \<and> length (filter is_device_query (snd (on_train_batch_start (init (Some True))
        (example_trainer [sink_slash] False cuda_device stats_ab) process_bc))) = 0
   \<and> length (filter is_process_query (snd (on_train_batch_start (init (Some True))
        (example_trainer [sink_slash] False cuda_device stats_ab) process_bc))) = 0"
  by (simp add: on_train_batch_start_def priv_get_and_log_device_stats_def example_trainer_def
      init_def cuda_device_def)

text \<open>
  C3, amended. With \<open>cpu_stats\<close> explicitly true and a root device whose type is not
  \<open>cpu\<close>, a sampling call that has a logger and that \<open>should_update_logs\<close> allows
  calls \<open>get_device_stats\<close> exactly once and \<open>get_cpu_process_metrics\<close> exactly once,
  returns normally, and sends to every logger the prefixed merge of the two results
  (two dictionaries), in which a key of the process metrics carries the process value,
  also when the device metrics have the key; a key of the device metrics alone
  carries the device value.
\<close>

theorem both_queries_once_process_value_wins:
  assumes "cpu_stats self = Some True"
    and "device_type (root_device trainer) \<noteq> ''cpu''"
    and "loggers trainer \<noteq> []"
    and "should_update_logs trainer"
    and "wf_dict (get_device_stats trainer (root_device trainer))"
    and "wf_dict (cpu ())"
  shows "fst (priv_get_and_log_device_stats self trainer cpu key) = Inr ()
    \<and> filter is_device_query (snd (priv_get_and_log_device_stats self trainer cpu key))
        = [GetDeviceStats (root_device trainer)]
    \<and> filter is_process_query (snd (priv_get_and_log_device_stats self trainer cpu key))
        = [GetCpuProcessMetrics]
    \<and> filter is_log_metrics (snd (priv_get_and_log_device_stats self trainer cpu key))
        = map (\<lambda>lg. LogMetrics lg
                 (priv_prefix_metric_keys
                    (dict_update (get_device_stats trainer (root_device trainer)) (cpu ()))
                    key (group_separator lg))
                 (global_step trainer))
            (loggers trainer)
    \<and> (\<forall>lg m step k v.
          LogMetrics lg m step \<in> set (snd (priv_get_and_log_device_stats self trainer cpu key))
          \<and> k \<in> dict_keys (get_device_stats trainer (root_device trainer))
          \<and> dict_get (cpu ()) k = Some v
          \<longrightarrow> dict_get m (key @ group_separator lg @ k) = Some v)
    \<and> (\<forall>lg m step k.
          LogMetrics lg m step \<in> set (snd (priv_get_and_log_device_stats self trainer cpu key))
          \<longrightarrow> dict_get m (key @ group_separator lg @ k) =
               (case dict_get (cpu ()) k of
                  Some v \<Rightarrow> Some v
                | None \<Rightarrow> dict_get (get_device_stats trainer (root_device trainer)) k))"
proof -
  let ?dev = "get_device_stats trainer (root_device trainer)"
  let ?merged = "dict_update ?dev (cpu ())"
  let ?call = "priv_get_and_log_device_stats self trainer cpu key"
  have call: "?call = (Inr (),
      [GetDeviceStats (root_device trainer), GetCpuProcessMetrics]
        @ log_to_loggers (loggers trainer) ?merged key (global_step trainer))"
    by (simp add: emitting_call [OF assms(3,4)] collect_both [OF assms(1,2)])
  have wf: "wf_dict ?merged"
    using assms(5) by (rule wf_dict_update)
  have merged: "dict_get ?merged k =
      (case dict_get (cpu ()) k of Some v \<Rightarrow> Some v | None \<Rightarrow> dict_get ?dev k)" for k
    unfolding dict_get_def
    using assms(6) by (simp add: map_of_dict_update wf_dict_def map_add_def)
  have forwarded: "dict_get m (key @ group_separator lg @ k) =
      (case dict_get (cpu ()) k of Some v \<Rightarrow> Some v | None \<Rightarrow> dict_get ?dev k)"
    if "LogMetrics lg m step \<in> set (snd ?call)" for lg m step k
  proof -
    from that have "m = priv_prefix_metric_keys ?merged key (group_separator lg)"
      by (auto simp: call log_to_loggers_map)
    then have "dict_get m (key @ group_separator lg @ k) = dict_get ?merged k"
      by (simp add: priv_prefix_metric_keys_map [OF wf] dict_get_def map_of_prefixed_items)
    then show ?thesis
      by (simp only: merged)
  qed
  have queries: "filter is_device_query (snd ?call) = [GetDeviceStats (root_device trainer)]"
    "filter is_process_query (snd ?call) = [GetCpuProcessMetrics]"
    using assms(1-4) by (simp_all add: device_queries_of_call process_queries_of_call)
  have logs: "filter is_log_metrics (snd ?call) =
      map (\<lambda>lg. LogMetrics lg (priv_prefix_metric_keys ?merged key (group_separator lg))
             (global_step trainer)) (loggers trainer)"
    by (simp add: log_calls_of_emitting_call [OF assms(3,4)] collect_both [OF assms(1,2)]
        log_to_loggers_map)
  have wins: "dict_get m (key @ group_separator lg @ k) = Some v"
    if "LogMetrics lg m step \<in> set (snd ?call)" "dict_get (cpu ()) k = Some v" for lg m step k v
    using forwarded [OF that(1), of k] that(2) by simp
  have wins_all: "\<forall>lg m step k v.
      LogMetrics lg m step \<in> set (snd ?call) \<and> k \<in> dict_keys ?dev
      \<and> dict_get (cpu ()) k = Some v
      \<longrightarrow> dict_get m (key @ group_separator lg @ k) = Some v"
    using wins by blast
  have forwarded_all: "\<forall>lg m step k.
      LogMetrics lg m step \<in> set (snd ?call)
      \<longrightarrow> dict_get m (key @ group_separator lg @ k) =
           (case dict_get (cpu ()) k of Some v \<Rightarrow> Some v | None \<Rightarrow> dict_get ?dev k)"
    using forwarded by blast
  have returns: "fst ?call = Inr ()"
    by (simp add: call)
  show ?thesis
    by (intro conjI returns queries logs wins_all forwarded_all)
qed

theorem both_queries_once_process_value_wins_witness:
  "cpu_stats (init (Some True)) = Some True
   \<and> device_type (root_device (example_trainer [sink_slash] True cuda_device stats_ab)) \<noteq> ''cpu''
   \<and> loggers (example_trainer [sink_slash] True cuda_device stats_ab) \<noteq> []
   \<and> should_update_logs (example_trainer [sink_slash] True cuda_device stats_ab)
   \<and> wf_dict (stats_ab cuda_device) \<and> wf_dict (process_bc ())
   \<and> snd (priv_get_and_log_device_stats (init (Some True))
        (example_trainer [sink_slash] True cuda_device stats_ab) process_bc ''L'')
       = [GetDeviceStats cuda_device, GetCpuProcessMetrics,
          LogMetrics sink_slash [(''L/a'', 1), (''L/b'', 5), (''L/c'', 3)] 7]
   \<and> filter is_process_query (snd (priv_get_and_log_device_stats (init (Some True))
        (example_trainer [sink_slash] True cuda_device stats_ab) process_bc ''L''))
       = [GetCpuProcessMetrics]"
proof -
  let ?t = "example_trainer [sink_slash] True cuda_device stats_ab"
  have h1: "cpu_stats (init (Some True)) = Some True"
    by (simp add: init_def)
  have h2: "device_type (root_device ?t) \<noteq> ''cpu''"
    and h3: "loggers ?t \<noteq> []" and h4: "should_update_logs ?t"
    by (simp_all add: example_trainer_def cuda_device_def)
  have h5: "wf_dict (get_device_stats ?t (root_device ?t))" and h6: "wf_dict (process_bc ())"
    by (simp_all add: example_trainer_def stats_ab_def process_bc_def wf_dict_def)
  have run: "snd (priv_get_and_log_device_stats (init (Some True)) ?t process_bc ''L'')
      = [GetDeviceStats cuda_device, GetCpuProcessMetrics,
         LogMetrics sink_slash [(''L/a'', 1), (''L/b'', 5), (''L/c'', 3)] 7]"
    by (simp add: priv_get_and_log_device_stats_def collect_device_stats_def init_def
        example_trainer_def cuda_device_def stats_ab_def process_bc_def sink_slash_def
        priv_prefix_metric_keys_def)
  show ?thesis
    using h1 h2 h3 h4 h5 h6 run
      both_queries_once_process_value_wins
        [of "init (Some True)" ?t process_bc "''L''", OF h1 h2 h3 h4 h5 h6]
    by (simp add: example_trainer_def)
qed

text \<open>
  C9, as stated, fails on its last part: the keys that \<open>get_device_stats\<close> returns are
  not inspected, so when the device metrics hold the keys \<open>a\<close> and \<open>L/a\<close> with one
  value, the mapping sent with key \<open>L\<close> to a logger with separator \<open>/\<close> holds
  \<open>L/a\<close> and \<open>L/L/a\<close>: two entries that differ only by the prefix and separator.
\<close>

theorem nested_keys_counterexample:
  "loggers (example_trainer [sink_slash] True cuda_device stats_nested) \<noteq> []
   \<and> should_update_logs (example_trainer [sink_slash] True cuda_device stats_nested)
   \<and> wf_dict (stats_nested cuda_device)
   \<and> priv_get_and_log_device_stats (init None)
        (example_trainer [sink_slash] True cuda_device stats_nested) process_bc ''L''
       = (Inr (), [GetDeviceStats cuda_device,
                   LogMetrics sink_slash [(''L/a'', 1), (''L/L/a'', 1)] 7])
   \<and> has_prefix_pair ''L'' (group_separator sink_slash) [(''L/a'', 1 :: real), (''L/L/a'', 1)]"
  by (simp add: priv_get_and_log_device_stats_def collect_device_stats_def init_def
      example_trainer_def stats_nested_def sink_slash_def priv_prefix_metric_keys_def
      wf_dict_def has_prefix_pair_def differ_only_by_prefix_def)

text \<open>
  C9, amended. In every sampling call that has a logger and that \<open>should_update_logs\<close>
  allows (the device metrics being a dictionary), the \<open>log_metrics\<close> calls are one per
  logger, in their order, each with the same snapshot, the one that stands after the
  merge of device and process metrics, rewritten once: every key becomes key argument,
  the logger's separator, key, with its value and place kept. Each mapping sent has as
  many entries as the snapshot and no key twice, and it holds two entries differing
  only by the prefix and separator exactly when the snapshot itself holds two such
  entries; so never when the snapshot holds none.
\<close>

theorem prefix_applied_once_after_merge:
  assumes "loggers trainer \<noteq> []"
    and "should_update_logs trainer"
    and "wf_dict (get_device_stats trainer (root_device trainer))"
  shows "filter is_log_metrics (snd (priv_get_and_log_device_stats self trainer cpu key)) =
           map (\<lambda>lg. LogMetrics lg
                  (map (\<lambda>(k, v). (key @ group_separator lg @ k, v))
                     (fst (collect_device_stats self trainer cpu)))
                  (global_step trainer))
             (loggers trainer)
    \<and> (cpu_stats self = Some True \<and> device_type (root_device trainer) \<noteq> ''cpu'' \<longrightarrow>
         fst (collect_device_stats self trainer cpu) =
           dict_update (get_device_stats trainer (root_device trainer)) (cpu ()))
    \<and> (\<forall>lg m step.
          LogMetrics lg m step \<in> set (snd (priv_get_and_log_device_stats self trainer cpu key))
          \<longrightarrow> m = map (\<lambda>(k, v). (key @ group_separator lg @ k, v))
                     (fst (collect_device_stats self trainer cpu))
             \<and> wf_dict m
             \<and> length m = length (fst (collect_device_stats self trainer cpu))
             \<and> has_prefix_pair key (group_separator lg) m =
                 has_prefix_pair key (group_separator lg)
                   (fst (collect_device_stats self trainer cpu)))"
proof -
  let ?snapshot = "fst (collect_device_stats self trainer cpu)"
  let ?call = "priv_get_and_log_device_stats self trainer cpu key"
  let ?rewrite = "\<lambda>lg. map (\<lambda>(k, v). (key @ group_separator lg @ k, v)) ?snapshot"
  have wf: "wf_dict ?snapshot"
    using assms(3) by (rule wf_collect)
  have rewrite: "priv_prefix_metric_keys ?snapshot key (group_separator lg) = ?rewrite lg" for lg
    using wf by (rule priv_prefix_metric_keys_map)
  have logs: "filter is_log_metrics (snd ?call) =
      map (\<lambda>lg. LogMetrics lg (?rewrite lg) (global_step trainer)) (loggers trainer)"
    by (simp add: log_calls_of_emitting_call [OF assms(1,2)] log_to_loggers_map rewrite)
  have merge: "cpu_stats self = Some True \<and> device_type (root_device trainer) \<noteq> ''cpu'' \<longrightarrow>
      ?snapshot = dict_update (get_device_stats trainer (root_device trainer)) (cpu ())"
    by (simp add: collect_both)
  have sent: "m = ?rewrite lg \<and> wf_dict m \<and> length m = length ?snapshot
      \<and> has_prefix_pair key (group_separator lg) m
          = has_prefix_pair key (group_separator lg) ?snapshot"
    if "LogMetrics lg m step \<in> set (snd ?call)" for lg m step
  proof -
    from that have "LogMetrics lg m step \<in> set (filter is_log_metrics (snd ?call))"
      by simp
    then have m: "m = ?rewrite lg"
      unfolding logs by auto
    have "wf_dict (?rewrite lg)"
      using wf_prefixed [OF wf, of key "group_separator lg"] by (simp only: rewrite)
    then show ?thesis
      by (simp add: m has_prefix_pair_prefixed)
  qed
  have sent_all: "\<forall>lg m step. LogMetrics lg m step \<in> set (snd ?call)
      \<longrightarrow> m = ?rewrite lg \<and> wf_dict m \<and> length m = length ?snapshot
         \<and> has_prefix_pair key (group_separator lg) m
             = has_prefix_pair key (group_separator lg) ?snapshot"
    using sent by blast
  show ?thesis
    by (intro conjI logs merge sent_all)
qed

theorem prefix_applied_once_after_merge_witness:
  "loggers (example_trainer [sink_slash, sink_dot] True cuda_device stats_ab) \<noteq> []
   \<and> should_update_logs (example_trainer [sink_slash, sink_dot] True cuda_device stats_ab)
   \<and> wf_dict (stats_ab cuda_device)
   \<and> filter is_log_metrics (snd (priv_get_and_log_device_stats (init (Some True))
        (example_trainer [sink_slash, sink_dot] True cuda_device stats_ab) process_bc ''L''))
       = [LogMetrics sink_slash [(''L/a'', 1), (''L/b'', 5), (''L/c'', 3)] 7,
          LogMetrics sink_dot [(''L.a'', 1), (''L.b'', 5), (''L.c'', 3)] 7]"
proof -
  let ?t = "example_trainer [sink_slash, sink_dot] True cuda_device stats_ab"
  have h1: "loggers ?t \<noteq> []" and h2: "should_update_logs ?t"
    by (simp_all add: example_trainer_def)
  have h3: "wf_dict (get_device_stats ?t (root_device ?t))"
    by (simp add: example_trainer_def stats_ab_def wf_dict_def)
  have snapshot: "fst (collect_device_stats (init (Some True)) ?t process_bc)
      = [(''a'', 1), (''b'', 5), (''c'', 3)]"
    by (simp add: collect_device_stats_def init_def example_trainer_def cuda_device_def
        stats_ab_def process_bc_def)
  show ?thesis
    using h1 h2 h3
      prefix_applied_once_after_merge
        [of ?t "init (Some True)" process_bc "''L''", OF h1 h2 h3]
    by (simp add: snapshot) (simp add: example_trainer_def sink_slash_def sink_dot_def)
qed

end
